theory Spec2Isabelle
  imports Complex_Main "HOL-Library.Word"
begin

unbundle bit_operations_syntax

section \<open>Constants of the header\<close>

text \<open>
  The command codes and register bounds of \<^verbatim>\<open>AS_BH1750.h\<close>, in decimal:
  0x10 = 16, 0x11 = 17, 0x13 = 19, 0x20 = 32, 0x21 = 33, 0x23 = 35.
\<close>

abbreviation BH1750_MTREG_DEFAULT :: "8 word" where "BH1750_MTREG_DEFAULT \<equiv> 69"
abbreviation BH1750_MTREG_MIN :: "8 word" where "BH1750_MTREG_MIN \<equiv> 31"
abbreviation BH1750_MTREG_MAX :: "8 word" where "BH1750_MTREG_MAX \<equiv> 254"

abbreviation BH1750_POWER_DOWN :: "8 word" where "BH1750_POWER_DOWN \<equiv> 0"
abbreviation BH1750_CONTINUOUS_HIGH_RES_MODE :: "8 word" where
  "BH1750_CONTINUOUS_HIGH_RES_MODE \<equiv> 16"
abbreviation BH1750_CONTINUOUS_HIGH_RES_MODE_2 :: "8 word" where
  "BH1750_CONTINUOUS_HIGH_RES_MODE_2 \<equiv> 17"
abbreviation BH1750_CONTINUOUS_LOW_RES_MODE :: "8 word" where
  "BH1750_CONTINUOUS_LOW_RES_MODE \<equiv> 19"
abbreviation BH1750_ONE_TIME_HIGH_RES_MODE :: "8 word" where
  "BH1750_ONE_TIME_HIGH_RES_MODE \<equiv> 32"
abbreviation BH1750_ONE_TIME_HIGH_RES_MODE_2 :: "8 word" where
  "BH1750_ONE_TIME_HIGH_RES_MODE_2 \<equiv> 33"
abbreviation BH1750_ONE_TIME_LOW_RES_MODE :: "8 word" where
  "BH1750_ONE_TIME_LOW_RES_MODE \<equiv> 35"

text \<open>
  The enumeration \<^verbatim>\<open>sensors_resolution_t\<close>. A C++ enumeration object can hold an
  integer that is no enumerator (the \<^verbatim>\<open>default\<close> branch of \<^verbatim>\<open>begin\<close> is written for
  that), so a virtual mode is an integer.
\<close>

abbreviation RESOLUTION_LOW :: int where "RESOLUTION_LOW \<equiv> 1"
abbreviation RESOLUTION_NORMAL :: int where "RESOLUTION_NORMAL \<equiv> 2"
abbreviation RESOLUTION_HIGH :: int where "RESOLUTION_HIGH \<equiv> 3"
abbreviation RESOLUTION_AUTO_HIGH :: int where "RESOLUTION_AUTO_HIGH \<equiv> 99"

section \<open>The two-wire bus and the delay function\<close>

text \<open>
  Everything the driver does to the outside is appended to a trace. A sleep records
  which function was called: \<open>PlatformDelay\<close> is the platform's \<^verbatim>\<open>delay\<close>, the default
  argument of \<^verbatim>\<open>selectResolutionMode\<close> and of \<^verbatim>\<open>readLightLevel\<close>; \<open>CallerDelay\<close> is a
  function of the caller's own, passed to \<^verbatim>\<open>readLightLevel\<close> as \<^verbatim>\<open>fDelayPtr\<close>.
\<close>

datatype delayfn = PlatformDelay | CallerDelay

datatype event =
    WireBegin
  | BeginTransmission int
  | WireWrite "8 word"
  | EndTransmission
  | RequestFrom int nat
  | WireRead
  | Sleep delayfn nat

text \<open>
  What the bus answers is not decided by the driver: \<open>acks w k\<close> is the status that the
  \<open>k\<close>-th call of \<^verbatim>\<open>Wire.endTransmission()\<close> returns (0 is success), and \<open>rx w k\<close> the
  value of the \<open>k\<close>-th call of \<^verbatim>\<open>Wire.read()\<close> (an \<^verbatim>\<open>int\<close>: a byte, or -1 when the
  receive buffer is empty).
\<close>

record wire =
  acks :: "nat \<Rightarrow> 8 word"
  rx :: "nat \<Rightarrow> int"
  n_end :: nat
  n_rx :: nat
  trace :: "event list"

definition emit :: "event \<Rightarrow> wire \<Rightarrow> wire" where
  "emit e w = w\<lparr>trace := trace w @ [e]\<rparr>"

definition endTransmission :: "wire \<Rightarrow> 8 word \<times> wire" where
  "endTransmission w =
     (acks w (n_end w), w\<lparr>n_end := n_end w + 1, trace := trace w @ [EndTransmission]\<rparr>)"

definition wire_read :: "wire \<Rightarrow> int \<times> wire" where
  "wire_read w = (rx w (n_rx w), w\<lparr>n_rx := n_rx w + 1, trace := trace w @ [WireRead]\<rparr>)"

section \<open>Floating point\<close>

text \<open>
  A \<^verbatim>\<open>float\<close> is modelled by the real number it denotes. The two rounding functions
  (to \<^verbatim>\<open>float\<close> and to \<^verbatim>\<open>double\<close>) are parameters, applied to the exact result of
  every floating-point operation of the source; nothing is assumed about them unless a
  theorem says so. With both the identity the arithmetic is exact.
\<close>

record fpu =
  to_float :: "real \<Rightarrow> real"
  to_double :: "real \<Rightarrow> real"

definition exact_fpu :: fpu where
  "exact_fpu = \<lparr>to_float = (\<lambda>x. x), to_double = (\<lambda>x. x)\<rparr>"

text \<open>
  The one assumption some theorems make: rounding a number that is not negative gives a
  number that is not negative, and the constant 1.2 is not rounded to 0.
\<close>

definition keeps_sign :: "fpu \<Rightarrow> bool" where
  "keeps_sign fp \<longleftrightarrow>
     (\<forall>x. 0 \<le> x \<longrightarrow> 0 \<le> to_float fp x \<and> 0 \<le> to_double fp x) \<and> 0 < to_double fp 1.2"

section \<open>The driver object\<close>

record AS_BH1750 =
  address :: int
  hardwareMode :: "8 word"
  MTreg :: "8 word"
  MTregFactor :: real
  virtualMode :: int
  autoPowerDown :: bool
  valueReaded :: bool

text \<open>
  The constructor assigns \<^verbatim>\<open>_address\<close> and \<^verbatim>\<open>_hardwareMode\<close> only; the other members
  keep whatever the memory of the object held, which is the argument \<open>mem\<close>.
\<close>

definition AS_BH1750_new :: "8 word \<Rightarrow> AS_BH1750 \<Rightarrow> AS_BH1750" where
  "AS_BH1750_new a mem = mem\<lparr>address := uint a, hardwareMode := 255\<rparr>"

definition isInitialized :: "AS_BH1750 \<Rightarrow> bool" where
  "isInitialized s \<longleftrightarrow> hardwareMode s \<noteq> 255"

definition write8 :: "8 word \<Rightarrow> AS_BH1750 \<Rightarrow> wire \<Rightarrow> bool \<times> wire" where
  "write8 d s w =
     (let w1 = emit (BeginTransmission (address s)) w;
          w2 = emit (WireWrite d) w1;
          (st, w3) = endTransmission w2
      in (st = 0, w3))"

text \<open>
  \<^verbatim>\<open>defineMTReg\<close>: the low byte is computed and the high byte is written a second
  time, as in the source.
\<close>

definition defineMTReg :: "fpu \<Rightarrow> 8 word \<Rightarrow> AS_BH1750 \<Rightarrow> wire \<Rightarrow> AS_BH1750 \<times> wire" where
  "defineMTReg fp val0 s w =
     (let val1 = (if val0 < BH1750_MTREG_MIN then BH1750_MTREG_MIN else val0);
          val = (if val1 > BH1750_MTREG_MAX then BH1750_MTREG_MAX else val1)
      in if val \<noteq> MTreg s then
           (let s1 = s\<lparr>MTreg := val\<rparr>;
                s2 = s1\<lparr>MTregFactor := to_float fp (69 / real (unat (MTreg s1)))\<rparr>;
                hiByte = drop_bit 5 val OR 64;
                (r1, w1) = write8 hiByte s2 w;
                loByte = (val AND 31) OR 96;
                (r2, w2) = write8 hiByte s2 w1
            in (s2, w2))
         else (s, w))"

definition selectResolutionMode ::
  "8 word \<Rightarrow> delayfn \<Rightarrow> AS_BH1750 \<Rightarrow> wire \<Rightarrow> bool \<times> AS_BH1750 \<times> wire" where
  "selectResolutionMode mode fDelayPtr s w =
     (if \<not> isInitialized s then (False, s, w)
      else
        (let s1 = s\<lparr>hardwareMode := mode, valueReaded := False\<rparr>
         in if mode = BH1750_CONTINUOUS_HIGH_RES_MODE
               \<or> mode = BH1750_CONTINUOUS_HIGH_RES_MODE_2
               \<or> mode = BH1750_CONTINUOUS_LOW_RES_MODE
               \<or> mode = BH1750_ONE_TIME_HIGH_RES_MODE
               \<or> mode = BH1750_ONE_TIME_HIGH_RES_MODE_2
               \<or> mode = BH1750_ONE_TIME_LOW_RES_MODE
            then (let (ok, w1) = write8 mode s1 w
                  in if ok then (True, s1, emit (Sleep fDelayPtr 5) w1)
                     else (False, s1, w1))
            else (False, s1, w)))"

definition powerOn :: "AS_BH1750 \<Rightarrow> wire \<Rightarrow> AS_BH1750 \<times> wire" where
  "powerOn s w =
     (if \<not> isInitialized s then (s, w)
      else
        (let s1 = s\<lparr>valueReaded := False\<rparr>;
             (r, s2, w1) = selectResolutionMode (hardwareMode s1) PlatformDelay s1 w
         in (s2, w1)))"

definition powerDown :: "AS_BH1750 \<Rightarrow> wire \<Rightarrow> AS_BH1750 \<times> wire" where
  "powerDown s w =
     (if \<not> isInitialized s then (s, w)
      else (let (r, w1) = write8 BH1750_POWER_DOWN s w in (s, w1)))"

text \<open>
  \<^verbatim>\<open>readRawLevel\<close>: \<^verbatim>\<open>level\<close> is a \<^verbatim>\<open>uint16_t\<close>, so each \<^verbatim>\<open>int\<close> that
  \<^verbatim>\<open>Wire.read()\<close> returns is reduced modulo \<open>2 ^ 16\<close> when it is stored.
\<close>

definition readRawLevel :: "AS_BH1750 \<Rightarrow> wire \<Rightarrow> 16 word \<times> AS_BH1750 \<times> wire" where
  "readRawLevel s w =
     (let w1 = emit (BeginTransmission (address s)) w;
          w2 = emit (RequestFrom (address s) 2) w1;
          (b1, w3) = wire_read w2;
          level1 = (word_of_int b1 :: 16 word);
          level2 = push_bit 8 level1;
          (b2, w4) = wire_read w3;
          level = level2 OR word_of_int b2;
          (st, w5) = endTransmission w4
      in if st \<noteq> 0 then (65535, s, w5)
         else (level, s\<lparr>valueReaded := True\<rparr>, w5))"

text \<open>
  \<^verbatim>\<open>convertRawValue\<close>: \<^verbatim>\<open>raw/1.2\<close> divides two \<^verbatim>\<open>double\<close>s (the constant 1.2 is
  itself rounded) and the quotient is stored in a \<^verbatim>\<open>float\<close>; the product and the
  halving are \<^verbatim>\<open>float\<close> operations.
\<close>

definition convertRawValue :: "fpu \<Rightarrow> 16 word \<Rightarrow> AS_BH1750 \<Rightarrow> real" where
  "convertRawValue fp raw s =
     (let flevel1 = to_float fp (to_double fp (real (unat raw) / to_double fp 1.2));
          flevel2 = (if MTreg s \<noteq> BH1750_MTREG_DEFAULT
                     then to_float fp (flevel1 * MTregFactor s) else flevel1)
      in if hardwareMode s = BH1750_CONTINUOUS_HIGH_RES_MODE_2
            \<or> hardwareMode s = BH1750_ONE_TIME_HIGH_RES_MODE_2
         then to_float fp (flevel2 / 2)
         else flevel2)"

text \<open>
  The body of \<^verbatim>\<open>readLightLevel\<close> in the automatic mode, in two parts: the probe in
  the low resolution mode, which yields \<^verbatim>\<open>level\<close>, and the four branches on
  \<^verbatim>\<open>level\<close>. \<^verbatim>\<open>fDelayPtr(120*3.68)\<close> passes 441.6 converted to
  \<^verbatim>\<open>unsigned long\<close>, which is 441.
\<close>

definition autoProbe ::
  "fpu \<Rightarrow> delayfn \<Rightarrow> AS_BH1750 \<Rightarrow> wire \<Rightarrow> 16 word \<times> AS_BH1750 \<times> wire" where
  "autoProbe fp fDelayPtr s w =
     (let (s1, w1) = defineMTReg fp BH1750_MTREG_DEFAULT s w;
          (r, s2, w2) = selectResolutionMode BH1750_CONTINUOUS_LOW_RES_MODE fDelayPtr s1 w1;
          w3 = emit (Sleep fDelayPtr 16) w2
      in readRawLevel s2 w3)"

definition autoBand ::
  "fpu \<Rightarrow> delayfn \<Rightarrow> 16 word \<Rightarrow> AS_BH1750 \<Rightarrow> wire \<Rightarrow> AS_BH1750 \<times> wire" where
  "autoBand fp fDelayPtr level s w =
     (if level < 10 then
        (let (s1, w1) = defineMTReg fp BH1750_MTREG_MAX s w;
             (r, s2, w2) = selectResolutionMode
                (if autoPowerDown s1 then BH1750_ONE_TIME_HIGH_RES_MODE_2
                 else BH1750_CONTINUOUS_HIGH_RES_MODE_2) fDelayPtr s1 w1
         in (s2, emit (Sleep fDelayPtr 441) w2))
      else if level < 32767 then
        (let (s1, w1) = defineMTReg fp BH1750_MTREG_DEFAULT s w;
             (r, s2, w2) = selectResolutionMode
                (if autoPowerDown s1 then BH1750_ONE_TIME_HIGH_RES_MODE_2
                 else BH1750_CONTINUOUS_HIGH_RES_MODE_2) fDelayPtr s1 w1
         in (s2, emit (Sleep fDelayPtr 120) w2))
      else if level < 60000 then
        (let (s1, w1) = defineMTReg fp BH1750_MTREG_DEFAULT s w;
             (r, s2, w2) = selectResolutionMode
                (if autoPowerDown s1 then BH1750_ONE_TIME_HIGH_RES_MODE
                 else BH1750_CONTINUOUS_HIGH_RES_MODE) fDelayPtr s1 w1
         in (s2, emit (Sleep fDelayPtr 120) w2))
      else
        (let (s1, w1) = defineMTReg fp 32 s w;
             (r, s2, w2) = selectResolutionMode
                (if autoPowerDown s1 then BH1750_ONE_TIME_HIGH_RES_MODE
                 else BH1750_CONTINUOUS_HIGH_RES_MODE) fDelayPtr s1 w1
         in (s2, emit (Sleep fDelayPtr 120) w2)))"

text \<open>
  The last part of \<^verbatim>\<open>readLightLevel\<close>: the raw read, the check of the suspicious
  value 65535 by an empty transmission to the address, and the conversion.
\<close>

definition finalRead :: "fpu \<Rightarrow> AS_BH1750 \<Rightarrow> wire \<Rightarrow> real \<times> AS_BH1750 \<times> wire" where
  "finalRead fp s w =
     (let (raw, s1, w1) = readRawLevel s w
      in if raw = 65535 then
           (let w2 = emit (BeginTransmission (address s1)) w1;
                (st, w3) = endTransmission w2
            in if st \<noteq> 0 then (- 1, s1, w3)
               else (convertRawValue fp raw s1, s1, w3))
         else (convertRawValue fp raw s1, s1, w1))"

text \<open>
  \<^verbatim>\<open>readLightLevel\<close> is the guard on \<^verbatim>\<open>isInitialized\<close>, then \<open>beforeRead\<close> (the
  wake-up when the sensor powered itself down after a reading, and the block of the
  automatic mode: \<open>autoProbe\<close> followed by \<open>autoBand\<close>), then \<open>finalRead\<close>. Its
  argument \<^verbatim>\<open>fDelayPtr\<close> is used for the sleeps of the automatic mode; \<^verbatim>\<open>powerOn\<close>
  calls \<^verbatim>\<open>selectResolutionMode\<close> without it.
\<close>

definition autoHigh :: "fpu \<Rightarrow> delayfn \<Rightarrow> AS_BH1750 \<Rightarrow> wire \<Rightarrow> AS_BH1750 \<times> wire" where
  "autoHigh fp fDelayPtr s w =
     (let (level, s1, w1) = autoProbe fp fDelayPtr s w in autoBand fp fDelayPtr level s1 w1)"

definition beforeRead :: "fpu \<Rightarrow> delayfn \<Rightarrow> AS_BH1750 \<Rightarrow> wire \<Rightarrow> AS_BH1750 \<times> wire" where
  "beforeRead fp fDelayPtr s w =
     (let (s1, w1) = (if autoPowerDown s \<and> valueReaded s then powerOn s w else (s, w))
      in if virtualMode s1 = RESOLUTION_AUTO_HIGH then autoHigh fp fDelayPtr s1 w1
         else (s1, w1))"

definition readLightLevel ::
  "fpu \<Rightarrow> delayfn \<Rightarrow> AS_BH1750 \<Rightarrow> wire \<Rightarrow> real \<times> AS_BH1750 \<times> wire" where
  "readLightLevel fp fDelayPtr s w =
     (if \<not> isInitialized s then (- 1, s, w)
      else (let (s2, w2) = beforeRead fp fDelayPtr s w in finalRead fp s2 w2))"

definition begin_sensor ::
  "fpu \<Rightarrow> int \<Rightarrow> bool \<Rightarrow> AS_BH1750 \<Rightarrow> wire \<Rightarrow> bool \<times> AS_BH1750 \<times> wire" where
  "begin_sensor fp mode apd s w =
     (let s1 = s\<lparr>virtualMode := mode, autoPowerDown := apd\<rparr>;
          w1 = emit WireBegin w;
          (s2, w2) = defineMTReg fp BH1750_MTREG_DEFAULT s1 w1;
          s3 = s2\<lparr>hardwareMode :=
                 (if virtualMode s2 = RESOLUTION_LOW then
                    (if apd then BH1750_ONE_TIME_LOW_RES_MODE
                     else BH1750_CONTINUOUS_LOW_RES_MODE)
                  else if virtualMode s2 = RESOLUTION_NORMAL then
                    (if apd then BH1750_ONE_TIME_HIGH_RES_MODE
                     else BH1750_CONTINUOUS_HIGH_RES_MODE)
                  else if virtualMode s2 = RESOLUTION_HIGH then
                    (if apd then BH1750_ONE_TIME_HIGH_RES_MODE_2
                     else BH1750_CONTINUOUS_HIGH_RES_MODE_2)
                  else if virtualMode s2 = RESOLUTION_AUTO_HIGH then
                    BH1750_CONTINUOUS_LOW_RES_MODE
                  else 255)\<rparr>
      in if hardwareMode s3 = 255 then (False, s3, w2)
         else
           (let (ok, s4, w3) = selectResolutionMode (hardwareMode s3) PlatformDelay s3 w2
            in if ok then (True, s4, w3)
               else (False, s4\<lparr>hardwareMode := 255\<rparr>, w3)))"

text \<open>
  \<^verbatim>\<open>isPresent\<close> calls \<^verbatim>\<open>readLightLevel()\<close> without an argument, that is, with the
  platform's \<^verbatim>\<open>delay\<close>.
\<close>

definition isPresent :: "fpu \<Rightarrow> AS_BH1750 \<Rightarrow> wire \<Rightarrow> bool \<times> AS_BH1750 \<times> wire" where
  "isPresent fp s w =
     (let w1 = emit (BeginTransmission (address s)) w;
          (st, w2) = endTransmission w1
      in if st \<noteq> 0 then (False, s, w2)
         else
           (let (s1, w3) =
                  (if \<not> isInitialized s then
                     (let (r, s', w') =
                            selectResolutionMode BH1750_ONE_TIME_LOW_RES_MODE PlatformDelay s w2
                      in (s'\<lparr>hardwareMode := 255\<rparr>, w'))
                   else powerOn s w2);
                (lux, s2, w4) = readLightLevel fp PlatformDelay s1 w3
            in (lux \<ge> 0, s2, w4)))"

section \<open>Sequences of public operations\<close>

datatype operation =
    Begin int bool
  | IsPresent
  | ReadLightLevel delayfn
  | PowerDown

fun perform :: "fpu \<Rightarrow> operation \<Rightarrow> AS_BH1750 \<times> wire \<Rightarrow> AS_BH1750 \<times> wire" where
  "perform fp (Begin mode apd) (s, w) = snd (begin_sensor fp mode apd s w)"
| "perform fp IsPresent (s, w) = snd (isPresent fp s w)"
| "perform fp (ReadLightLevel fDelayPtr) (s, w) = snd (readLightLevel fp fDelayPtr s w)"
| "perform fp PowerDown (s, w) = powerDown s w"

fun run :: "fpu \<Rightarrow> operation list \<Rightarrow> AS_BH1750 \<times> wire \<Rightarrow> AS_BH1750 \<times> wire" where
  "run fp [] c = c"
| "run fp (x # xs) c = run fp xs (perform fp x c)"

definition legal_hardwareMode :: "8 word \<Rightarrow> bool" where
  "legal_hardwareMode m \<longleftrightarrow>
     m = 255 \<or> m = BH1750_CONTINUOUS_HIGH_RES_MODE \<or> m = BH1750_CONTINUOUS_HIGH_RES_MODE_2
     \<or> m = BH1750_CONTINUOUS_LOW_RES_MODE \<or> m = BH1750_ONE_TIME_HIGH_RES_MODE
     \<or> m = BH1750_ONE_TIME_HIGH_RES_MODE_2 \<or> m = BH1750_ONE_TIME_LOW_RES_MODE"

text \<open>
  \<^verbatim>\<open>_MTregFactor\<close> is read only when \<^verbatim>\<open>_MTreg\<close> is not 69. It then has to be the
  quotient that \<^verbatim>\<open>defineMTReg\<close> stores with the register.
\<close>

definition MTregFactor_valid :: "fpu \<Rightarrow> AS_BH1750 \<Rightarrow> bool" where
  "MTregFactor_valid fp s \<longleftrightarrow>
     MTreg s = BH1750_MTREG_DEFAULT
     \<or> (BH1750_MTREG_MIN \<le> MTreg s \<and> MTreg s \<le> BH1750_MTREG_MAX
        \<and> MTregFactor s = to_float fp (69 / real (unat (MTreg s))))"

text \<open>The two range checks at the head of \<^verbatim>\<open>defineMTReg\<close>, as one expression.\<close>

definition clampMT :: "8 word \<Rightarrow> 8 word" where
  "clampMT v = (if v < 31 then 31 else if 254 < v then 254 else v)"

text \<open>
  What every sequence of public operations keeps true of the object: the hardware mode
  is the sentinel or a command code, and an initialized object has a valid factor.
\<close>

definition handle_ok :: "fpu \<Rightarrow> AS_BH1750 \<Rightarrow> bool" where
  "handle_ok fp s \<longleftrightarrow>
     legal_hardwareMode (hardwareMode s) \<and> (hardwareMode s = 255 \<or> MTregFactor_valid fp s)"

text \<open>The \<^verbatim>\<open>switch\<close> of \<^verbatim>\<open>begin\<close>, as a function of the virtual mode and the flag.\<close>

definition hardwareMode_of :: "int \<Rightarrow> bool \<Rightarrow> 8 word" where
  "hardwareMode_of mode apd =
     (if mode = RESOLUTION_LOW then
        (if apd then BH1750_ONE_TIME_LOW_RES_MODE else BH1750_CONTINUOUS_LOW_RES_MODE)
      else if mode = RESOLUTION_NORMAL then
        (if apd then BH1750_ONE_TIME_HIGH_RES_MODE else BH1750_CONTINUOUS_HIGH_RES_MODE)
      else if mode = RESOLUTION_HIGH then
        (if apd then BH1750_ONE_TIME_HIGH_RES_MODE_2 else BH1750_CONTINUOUS_HIGH_RES_MODE_2)
      else if mode = RESOLUTION_AUTO_HIGH then BH1750_CONTINUOUS_LOW_RES_MODE
      else 255)"

text \<open>The bytes handed to \<^verbatim>\<open>Wire.write\<close>, in the order of the trace.\<close>

fun written :: "event list \<Rightarrow> 8 word list" where
  "written [] = []"
| "written (WireWrite d # es) = d # written es"
| "written (e # es) = written es"

subsection \<open>Concrete inputs\<close>

text \<open>A bus on which every transmission succeeds and every byte read is 0.\<close>

definition idle_wire :: wire where
  "idle_wire = \<lparr>acks = (\<lambda>k. 0), rx = (\<lambda>k. 0), n_end = 0, n_rx = 0, trace = []\<rparr>"

text \<open>A bus on which no transmission is acknowledged (status 2: NACK on the address).\<close>

definition dead_wire :: wire where
  "dead_wire = \<lparr>acks = (\<lambda>k. 2), rx = (\<lambda>k. - 1), n_end = 0, n_rx = 0, trace = []\<rparr>"

text \<open>Zeroed memory, for the members the constructor leaves alone.\<close>

definition blank_memory :: AS_BH1750 where
  "blank_memory = \<lparr>address = 0, hardwareMode = 0, MTreg = 0, MTregFactor = 0,
     virtualMode = 0, autoPowerDown = False, valueReaded = False\<rparr>"

text \<open>A bus with the given statuses and read values, nothing done on it yet.\<close>

definition wire_with :: "(nat \<Rightarrow> 8 word) \<Rightarrow> (nat \<Rightarrow> int) \<Rightarrow> wire" where
  "wire_with a r = \<lparr>acks = a, rx = r, n_end = 0, n_rx = 0, trace = []\<rparr>"

text \<open>
  The objects that \<^verbatim>\<open>begin(RESOLUTION_AUTO_HIGH, false)\<close> and
  \<^verbatim>\<open>begin(RESOLUTION_NORMAL, false)\<close> leave on a bus that acknowledges everything
  (lemmas \<open>begin_gives_auto_handle\<close> and \<open>begin_gives_normal_handle\<close>).
\<close>

definition auto_handle :: AS_BH1750 where
  "auto_handle = \<lparr>address = 35, hardwareMode = 19, MTreg = 69, MTregFactor = 1,
     virtualMode = 99, autoPowerDown = False, valueReaded = False\<rparr>"

definition normal_handle :: AS_BH1750 where
  "normal_handle = \<lparr>address = 35, hardwareMode = 16, MTreg = 69, MTregFactor = 1,
     virtualMode = 2, autoPowerDown = False, valueReaded = False\<rparr>"

section \<open>Bus primitives\<close>

lemma write8_eq:
  "write8 d s w = (acks w (n_end w) = 0,
     w\<lparr>n_end := n_end w + 1,
       trace := trace w @ [BeginTransmission (address s), WireWrite d, EndTransmission]\<rparr>)"
  by (simp add: write8_def emit_def endTransmission_def)

section \<open>The sensitivity register\<close>

text \<open>The two command bytes of the data sheet differ in bit 5 for every register value.\<close>

lemma hiByte_neq_loByte: "drop_bit 5 (v :: 8 word) OR 64 \<noteq> (v AND 31) OR 96"
proof
  assume "drop_bit 5 v OR 64 = (v AND 31) OR 96"
  then have "bit (drop_bit 5 v OR 64) 5 = bit ((v AND 31) OR 96) 5" by simp
  then show False by (auto simp add: bit_simps dest: bit_imp_le_length)
qed

text \<open>
  C1. Claimed: a changed sensitivity value is sent as two one-byte writes, the high byte
  \<open>0b01000000 OR (val >> 5)\<close> and then the low byte \<open>0b01100000 OR (val AND 0b11111)\<close>.
  The code sends the high byte twice. With the register at 69 and the value 254, the bus
  sees the byte 71 (0x47) two times; the low byte 126 (0x7E) is computed and never sent.
  Lemma \<open>defineMTReg_wire\<close> gives the trace for every value, and the two bytes differ for
  every value (\<open>hiByte_neq_loByte\<close>).
\<close>

theorem defineMTReg_sends_hiByte_twice:
  "trace (snd (defineMTReg exact_fpu 254 (blank_memory\<lparr>address := 35, MTreg := 69\<rparr>) idle_wire))
     = [BeginTransmission 35, WireWrite 71, EndTransmission,
        BeginTransmission 35, WireWrite 71, EndTransmission]
   \<and> drop_bit 5 (254 :: 8 word) OR 64 = 71
   \<and> ((254 :: 8 word) AND 31) OR 96 = 126"
  by (simp add: defineMTReg_def write8_eq Let_def blank_memory_def idle_wire_def)

text \<open>
  C4. For every input, \<^verbatim>\<open>defineMTReg\<close> leaves the register at the input clamped to
  \<open>[31, 254]\<close>. When the clamped value is the stored register, the call changes neither
  the object nor the bus. A second call with the same value changes neither.
\<close>

theorem defineMTReg_clamps_idempotent:
  "(let c = (if val < 31 then 31 else if 254 < val then 254 else val);
        (s1, w1) = defineMTReg fp val s w
    in MTreg s1 = c \<and> 31 \<le> c \<and> c \<le> 254
       \<and> (c = MTreg s \<longrightarrow> (s1, w1) = (s, w))
       \<and> defineMTReg fp val s1 w1 = (s1, w1))"
  by (auto simp add: defineMTReg_def write8_eq Let_def)

theorem defineMTReg_clamps_idempotent_witness:
  "defineMTReg exact_fpu 5 (blank_memory\<lparr>MTreg := 31\<rparr>) idle_wire
     = (blank_memory\<lparr>MTreg := 31\<rparr>, idle_wire)
   \<and> MTreg (fst (defineMTReg exact_fpu 255 blank_memory idle_wire)) = 254
   \<and> MTreg (fst (defineMTReg exact_fpu 100 blank_memory idle_wire)) = 100"
  using defineMTReg_clamps_idempotent [of 5 exact_fpu "blank_memory\<lparr>MTreg := 31\<rparr>" idle_wire]
    defineMTReg_clamps_idempotent [of 255 exact_fpu blank_memory idle_wire]
    defineMTReg_clamps_idempotent [of 100 exact_fpu blank_memory idle_wire]
  by (simp add: blank_memory_def Let_def split_def prod_eq_iff)

section \<open>What each method does to the object\<close>

lemma defineMTReg_state:
  "fst (defineMTReg fp v s w) =
     (if clampMT v = MTreg s then s
      else s\<lparr>MTreg := clampMT v, MTregFactor := to_float fp (69 / real (unat (clampMT v)))\<rparr>)"
  by (auto simp add: defineMTReg_def clampMT_def write8_eq Let_def)

lemma defineMTReg_MTreg: "MTreg (fst (defineMTReg fp v s w)) = clampMT v"
  by (simp add: defineMTReg_state)

lemma defineMTReg_keeps:
  "hardwareMode (fst (defineMTReg fp v s w)) = hardwareMode s"
  "autoPowerDown (fst (defineMTReg fp v s w)) = autoPowerDown s"
  "virtualMode (fst (defineMTReg fp v s w)) = virtualMode s"
  "address (fst (defineMTReg fp v s w)) = address s"
  "isInitialized (fst (defineMTReg fp v s w)) = isInitialized s"
  by (simp_all add: defineMTReg_state isInitialized_def)

lemma clampMT_bounds: "31 \<le> clampMT v \<and> clampMT v \<le> 254"
  by (auto simp add: clampMT_def)

lemma defineMTReg_valid:
  "MTregFactor_valid fp s \<Longrightarrow> MTregFactor_valid fp (fst (defineMTReg fp v s w))"
  by (simp add: defineMTReg_state MTregFactor_valid_def clampMT_bounds)

lemma defineMTReg_default_valid:
  "MTregFactor_valid fp (fst (defineMTReg fp 69 s w))"
  by (simp add: MTregFactor_valid_def defineMTReg_MTreg clampMT_def)

lemma selectResolutionMode_state:
  "fst (snd (selectResolutionMode m d s w)) =
     (if isInitialized s then s\<lparr>hardwareMode := m, valueReaded := False\<rparr> else s)"
  by (simp add: selectResolutionMode_def write8_eq Let_def)

lemma selectResolutionMode_ok:
  "fst (selectResolutionMode m d s w) \<longleftrightarrow>
     isInitialized s \<and> (m = 16 \<or> m = 17 \<or> m = 19 \<or> m = 32 \<or> m = 33 \<or> m = 35)
     \<and> acks w (n_end w) = 0"
  by (simp add: selectResolutionMode_def write8_eq Let_def)

lemma powerOn_state:
  "fst (powerOn s w) = (if isInitialized s then s\<lparr>valueReaded := False\<rparr> else s)"
  by (simp add: powerOn_def split_def Let_def selectResolutionMode_state isInitialized_def)

lemma powerDown_state: "fst (powerDown s w) = s"
  by (simp add: powerDown_def split_def)

lemma readRawLevel_state:
  "fst (snd (readRawLevel s w)) = (if acks w (n_end w) \<noteq> 0 then s else s\<lparr>valueReaded := True\<rparr>)"
  by (simp add: readRawLevel_def emit_def wire_read_def endTransmission_def Let_def)

lemma finalRead_state: "fst (snd (finalRead fp s w)) = fst (snd (readRawLevel s w))"
  by (simp add: finalRead_def split_def Let_def)

lemma autoProbe_state:
  "isInitialized s \<Longrightarrow>
   \<exists>b. fst (snd (autoProbe fp dl s w)) =
     (fst (defineMTReg fp 69 s w))\<lparr>hardwareMode := 19, valueReaded := b\<rparr>"
  by (auto simp add: autoProbe_def split_def Let_def readRawLevel_state selectResolutionMode_state
      defineMTReg_keeps)

lemma autoBand_state:
  "isInitialized s \<Longrightarrow>
   fst (autoBand fp dl level s w) =
     (if level < 10 then
        (fst (defineMTReg fp 254 s w))\<lparr>hardwareMode := (if autoPowerDown s then 33 else 17), valueReaded := False\<rparr>
      else if level < 32767 then
        (fst (defineMTReg fp 69 s w))\<lparr>hardwareMode := (if autoPowerDown s then 33 else 17), valueReaded := False\<rparr>
      else if level < 60000 then
        (fst (defineMTReg fp 69 s w))\<lparr>hardwareMode := (if autoPowerDown s then 32 else 16), valueReaded := False\<rparr>
      else
        (fst (defineMTReg fp 32 s w))\<lparr>hardwareMode := (if autoPowerDown s then 32 else 16), valueReaded := False\<rparr>)"
  by (simp add: autoBand_def split_def Let_def selectResolutionMode_state defineMTReg_keeps)


lemma selectResolutionMode_uninit:
  "\<not> isInitialized s \<Longrightarrow> selectResolutionMode m d s w = (False, s, w)"
  by (simp add: selectResolutionMode_def)

lemma MTregFactor_valid_update [simp]:
  "MTregFactor_valid fp (s\<lparr>valueReaded := b\<rparr>) = MTregFactor_valid fp s"
  "MTregFactor_valid fp (s\<lparr>hardwareMode := m\<rparr>) = MTregFactor_valid fp s"
  by (simp_all add: MTregFactor_valid_def)

lemma autoProbe_props:
  assumes "isInitialized s"
  shows "hardwareMode (fst (snd (autoProbe fp dl s w))) = 19"
    and "MTreg (fst (snd (autoProbe fp dl s w))) = 69"
    and "MTregFactor_valid fp (fst (snd (autoProbe fp dl s w)))"
    and "autoPowerDown (fst (snd (autoProbe fp dl s w))) = autoPowerDown s"
    and "isInitialized (fst (snd (autoProbe fp dl s w)))"
    and "address (fst (snd (autoProbe fp dl s w))) = address s"
proof -
  obtain b where e: "fst (snd (autoProbe fp dl s w)) =
     (fst (defineMTReg fp 69 s w))\<lparr>hardwareMode := 19, valueReaded := b\<rparr>"
    using autoProbe_state [OF assms] by blast
  show "hardwareMode (fst (snd (autoProbe fp dl s w))) = 19" by (simp add: e)
  show "MTreg (fst (snd (autoProbe fp dl s w))) = 69" by (simp add: e defineMTReg_MTreg clampMT_def)
  show "MTregFactor_valid fp (fst (snd (autoProbe fp dl s w)))"
    by (simp add: e defineMTReg_default_valid)
  show "autoPowerDown (fst (snd (autoProbe fp dl s w))) = autoPowerDown s"
    by (simp add: e defineMTReg_keeps)
  show "isInitialized (fst (snd (autoProbe fp dl s w)))" by (simp add: e isInitialized_def)
  show "address (fst (snd (autoProbe fp dl s w))) = address s" by (simp add: e defineMTReg_keeps)
qed

lemma autoBand_props:
  assumes "isInitialized s"
  shows "hardwareMode (fst (autoBand fp dl level s w)) =
           (if level < 10 \<or> level < 32767 then (if autoPowerDown s then 33 else 17)
            else (if autoPowerDown s then 32 else 16))"
    and "MTreg (fst (autoBand fp dl level s w)) =
           (if level < 10 then 254 else if level < 32767 \<or> level < 60000 then 69 else 32)"
    and "MTregFactor_valid fp s \<Longrightarrow> MTregFactor_valid fp (fst (autoBand fp dl level s w))"
    and "address (fst (autoBand fp dl level s w)) = address s"
    and "autoPowerDown (fst (autoBand fp dl level s w)) = autoPowerDown s"
  by (simp_all add: autoBand_state [OF assms] defineMTReg_MTreg clampMT_def defineMTReg_valid
      defineMTReg_keeps)

lemma finalRead_props:
  "hardwareMode (fst (snd (finalRead fp s w))) = hardwareMode s"
  "MTreg (fst (snd (finalRead fp s w))) = MTreg s"
  "MTregFactor_valid fp (fst (snd (finalRead fp s w))) = MTregFactor_valid fp s"
  "address (fst (snd (finalRead fp s w))) = address s"
  by (simp_all add: finalRead_state readRawLevel_state)

lemma powerOn_props:
  "hardwareMode (fst (powerOn s w)) = hardwareMode s"
  "MTreg (fst (powerOn s w)) = MTreg s"
  "virtualMode (fst (powerOn s w)) = virtualMode s"
  "autoPowerDown (fst (powerOn s w)) = autoPowerDown s"
  "isInitialized (fst (powerOn s w)) = isInitialized s"
  "MTregFactor_valid fp (fst (powerOn s w)) = MTregFactor_valid fp s"
  "address (fst (powerOn s w)) = address s"
  by (simp_all add: powerOn_state isInitialized_def)

lemma beforeRead_props:
  assumes "isInitialized s" and "MTregFactor_valid fp s"
  shows "legal_hardwareMode (hardwareMode s) \<Longrightarrow>
           legal_hardwareMode (hardwareMode (fst (beforeRead fp dl s w)))"
    and "isInitialized (fst (beforeRead fp dl s w))"
    and "MTregFactor_valid fp (fst (beforeRead fp dl s w))"
    and "address (fst (beforeRead fp dl s w)) = address s"
proof -
  define c1 where "c1 = (if autoPowerDown s \<and> valueReaded s then powerOn s w else (s, w))"
  have i1: "isInitialized (fst c1)" and v1: "MTregFactor_valid fp (fst c1)"
    and a1: "address (fst c1) = address s" and h1: "hardwareMode (fst c1) = hardwareMode s"
    using assms by (auto simp add: c1_def powerOn_props)
  have r: "beforeRead fp dl s w =
      (if virtualMode (fst c1) = 99 then autoHigh fp dl (fst c1) (snd c1) else c1)"
    by (simp add: beforeRead_def c1_def split_def Let_def)
  note p = autoProbe_props [OF i1, where fp = fp and dl = dl and w = "snd c1"]
  note q = autoBand_props [OF p(5), where fp = fp and dl = dl
      and level = "fst (autoProbe fp dl (fst c1) (snd c1))"
      and w = "snd (snd (autoProbe fp dl (fst c1) (snd c1)))"]
  have h: "fst (autoHigh fp dl (fst c1) (snd c1)) =
      fst (autoBand fp dl (fst (autoProbe fp dl (fst c1) (snd c1)))
        (fst (snd (autoProbe fp dl (fst c1) (snd c1)))) (snd (snd (autoProbe fp dl (fst c1) (snd c1)))))"
    by (simp add: autoHigh_def split_def Let_def)
  show "legal_hardwareMode (hardwareMode (fst (beforeRead fp dl s w)))"
    if "legal_hardwareMode (hardwareMode s)"
    using that h1 by (simp add: r h q(1) legal_hardwareMode_def)
  show "isInitialized (fst (beforeRead fp dl s w))"
    using i1 by (simp add: r h q(1) isInitialized_def)
  show "MTregFactor_valid fp (fst (beforeRead fp dl s w))"
    using v1 by (simp add: r h q(3) [OF p(3)])
  show "address (fst (beforeRead fp dl s w)) = address s"
    using a1 by (simp add: r h q(4) p(6))
qed

lemma readLightLevel_ok:
  assumes "handle_ok fp s"
  shows "handle_ok fp (fst (snd (readLightLevel fp dl s w)))"
proof (cases "isInitialized s")
  case False
  then show ?thesis using assms by (simp add: readLightLevel_def)
next
  case True
  then have v: "MTregFactor_valid fp s" using assms by (simp add: handle_ok_def isInitialized_def)
  have l: "legal_hardwareMode (hardwareMode s)" using assms by (simp add: handle_ok_def)
  note b = beforeRead_props(1) [OF True v l, where dl = dl and w = w]
    beforeRead_props(2-3) [OF True v, where dl = dl and w = w]
  have r: "readLightLevel fp dl s w = finalRead fp (fst (beforeRead fp dl s w)) (snd (beforeRead fp dl s w))"
    using True by (simp add: readLightLevel_def split_def Let_def)
  show ?thesis using b by (simp add: r handle_ok_def finalRead_props isInitialized_def)
qed

lemma begin_sensor_ok: "handle_ok fp (fst (snd (begin_sensor fp mode apd s w)))"
  by (simp add: begin_sensor_def split_def Let_def selectResolutionMode_state handle_ok_def
      legal_hardwareMode_def defineMTReg_default_valid isInitialized_def)

lemma isPresent_ok:
  assumes "handle_ok fp s"
  shows "handle_ok fp (fst (snd (isPresent fp s w)))"
proof -
  have a: "handle_ok fp (s\<lparr>hardwareMode := 255\<rparr>)"
    by (simp add: handle_ok_def legal_hardwareMode_def)
  have b: "handle_ok fp (fst (powerOn s w'))" for w'
    using assms by (simp add: handle_ok_def powerOn_props)
  show ?thesis
    using assms a b
    by (simp add: isPresent_def split_def Let_def selectResolutionMode_uninit readLightLevel_ok)
qed

lemma powerDown_ok: "handle_ok fp s \<Longrightarrow> handle_ok fp (fst (powerDown s w))"
  by (simp add: powerDown_state)

lemma perform_ok: "handle_ok fp (fst c) \<Longrightarrow> handle_ok fp (fst (perform fp x c))"
  by (cases c; cases x)
     (simp_all add: begin_sensor_ok isPresent_ok readLightLevel_ok powerDown_ok)

lemma run_ok: "handle_ok fp (fst c) \<Longrightarrow> handle_ok fp (fst (run fp xs c))"
  by (induction xs arbitrary: c) (simp_all add: perform_ok)

lemma new_ok: "handle_ok fp (AS_BH1750_new a mem)"
  by (simp add: handle_ok_def AS_BH1750_new_def legal_hardwareMode_def)


lemma run_MTregFactor_valid:
  "isInitialized (fst (run fp ops (AS_BH1750_new a mem, w))) \<Longrightarrow>
   MTregFactor_valid fp (fst (run fp ops (AS_BH1750_new a mem, w)))"
proof -
  assume i: "isInitialized (fst (run fp ops (AS_BH1750_new a mem, w)))"
  have "handle_ok fp (fst (AS_BH1750_new a mem, w))" by (simp add: new_ok)
  from run_ok [OF this, of ops] i show ?thesis by (simp add: handle_ok_def isInitialized_def)
qed

section \<open>Reading the raw value\<close>

lemma big_endian_value: "unat (push_bit 8 (ucast (x::8 word)) OR (ucast (y :: 8 word)) :: 16 word) = 256 * unat x + unat y"
proof -
  have d: "push_bit 8 (ucast x :: 16 word) AND ucast y = 0"
    by (rule bit_eqI) (auto simp add: bit_simps dest: bit_imp_le_length)
  have "push_bit 8 (ucast x :: 16 word) OR ucast y = push_bit 8 (ucast x) + ucast y"
    using disjunctive_add_eq_or [OF d] by simp
  moreover have "unat (push_bit 8 (ucast x :: 16 word) + ucast y) = 256 * unat x + unat y"
  proof -
    have x: "unat x < 256" using unsigned_less [of x, where 'a = nat] by simp
    have y: "unat y < 256" using unsigned_less [of y, where 'a = nat] by simp
    have ux: "unat (ucast x :: 16 word) = unat x" using x by (simp add: unsigned_ucast_eq take_bit_nat_eq_self)
    have uy: "unat (ucast y :: 16 word) = unat y" using y by (simp add: unsigned_ucast_eq take_bit_nat_eq_self)
    have m: "unat (push_bit 8 (ucast x :: 16 word)) = 256 * unat x"
      using x ux unat_mult_lem [of "ucast x :: 16 word" 256] by (simp add: push_bit_eq_mult)
    show ?thesis using x y m uy unat_add_lem [of "push_bit 8 (ucast x :: 16 word)" "ucast y"] by simp
  qed
  ultimately show ?thesis by simp
qed

lemma readRawLevel_eq:
  "readRawLevel s w =
     (if acks w (n_end w) \<noteq> 0 then 65535
      else push_bit 8 (word_of_int (rx w (n_rx w))) OR word_of_int (rx w (n_rx w + 1)),
      if acks w (n_end w) \<noteq> 0 then s else s\<lparr>valueReaded := True\<rparr>,
      w\<lparr>n_end := n_end w + 1, n_rx := n_rx w + 2,
        trace := trace w @ [BeginTransmission (address s), RequestFrom (address s) 2,
                            WireRead, WireRead, EndTransmission]\<rparr>)"
  by (simp add: readRawLevel_def emit_def wire_read_def endTransmission_def Let_def)


text \<open>
  C8. \<^verbatim>\<open>readRawLevel\<close> addresses the device, requests 2 bytes and reads two values.
  When \<^verbatim>\<open>endTransmission\<close> reports success, the result is the first byte shifted left
  by 8, or-ed with the second byte (as a number: 256 times the first plus the second).
  When it reports a failure, the result is 65535.
\<close>

theorem readRawLevel_big_endian:
  "(let (level, s1, w1) = readRawLevel s w
    in trace w1 = trace w @ [BeginTransmission (address s), RequestFrom (address s) 2,
                             WireRead, WireRead, EndTransmission]
       \<and> (acks w (n_end w) = 0 \<and> rx w (n_rx w) = uint first \<and> rx w (n_rx w + 1) = uint second
            \<longrightarrow> level = push_bit 8 (ucast first) OR ucast second
               \<and> unat level = 256 * unat first + unat second)
       \<and> (acks w (n_end w) \<noteq> 0 \<longrightarrow> level = 65535))"
  for first second :: "8 word"
  by (simp add: readRawLevel_eq big_endian_value)

theorem readRawLevel_big_endian_witness:
  "fst (readRawLevel (AS_BH1750_new 35 blank_memory)
          (idle_wire\<lparr>rx := (\<lambda>k. if k = 0 then 1 else 2)\<rparr>)) = 258
   \<and> fst (readRawLevel (AS_BH1750_new 35 blank_memory) dead_wire) = 65535"
  using readRawLevel_big_endian [of "AS_BH1750_new 35 blank_memory"
      "idle_wire\<lparr>rx := (\<lambda>k. if k = 0 then 1 else 2)\<rparr>" 1 2]
    readRawLevel_big_endian [of "AS_BH1750_new 35 blank_memory" dead_wire 0 0]
  by (simp add: idle_wire_def dead_wire_def split: prod.splits)

section \<open>The object before a successful initialization\<close>

text \<open>
  C7. On an object that is not initialized, \<^verbatim>\<open>readLightLevel\<close> returns -1, and
  \<^verbatim>\<open>readLightLevel\<close>, \<^verbatim>\<open>powerOn\<close> and \<^verbatim>\<open>powerDown\<close> leave the object and the bus
  as they were, whatever the object holds and whatever the bus would answer.
\<close>

theorem uninitialized_no_effect:
  "\<not> isInitialized s \<Longrightarrow>
     readLightLevel fp dl s w = (- 1, s, w) \<and> powerOn s w = (s, w) \<and> powerDown s w = (s, w)"
  by (simp add: readLightLevel_def powerOn_def powerDown_def)

theorem uninitialized_no_effect_witness:
  "\<not> isInitialized (AS_BH1750_new 35 blank_memory)
   \<and> readLightLevel exact_fpu CallerDelay (AS_BH1750_new 35 blank_memory) idle_wire
       = (- 1, AS_BH1750_new 35 blank_memory, idle_wire)
   \<and> powerOn (AS_BH1750_new 35 blank_memory) idle_wire = (AS_BH1750_new 35 blank_memory, idle_wire)
   \<and> powerDown (AS_BH1750_new 35 blank_memory) idle_wire = (AS_BH1750_new 35 blank_memory, idle_wire)"
proof -
  have h: "\<not> isInitialized (AS_BH1750_new 35 blank_memory)"
    by (simp add: isInitialized_def AS_BH1750_new_def)
  from uninitialized_no_effect [OF h, where fp = exact_fpu and dl = CallerDelay and w = idle_wire] h
  show ?thesis by simp
qed

text \<open>
  C10. On an object that is not initialized, \<^verbatim>\<open>isPresent\<close> returns false whatever the
  bus answers: \<^verbatim>\<open>selectResolutionMode\<close> refuses the one-time low resolution mode at its
  guard, \<^verbatim>\<open>readLightLevel\<close> returns -1, and the only bus traffic is the empty
  transmission that tests the address. The object is left as it was.
\<close>

theorem isPresent_uninitialized_false:
  "\<not> isInitialized s \<Longrightarrow>
     fst (isPresent fp s w) = False
     \<and> selectResolutionMode BH1750_ONE_TIME_LOW_RES_MODE PlatformDelay s w' = (False, s, w')
     \<and> fst (readLightLevel fp dl (s\<lparr>hardwareMode := 255\<rparr>) w') = - 1
     \<and> isPresent fp s w =
         (False, s, w\<lparr>n_end := n_end w + 1,
                      trace := trace w @ [BeginTransmission (address s), EndTransmission]\<rparr>)"
  by (simp add: isPresent_def selectResolutionMode_uninit readLightLevel_def emit_def
      endTransmission_def isInitialized_def Let_def)

theorem isPresent_uninitialized_false_witness:
  "\<not> isInitialized (AS_BH1750_new 35 blank_memory)
   \<and> isPresent exact_fpu (AS_BH1750_new 35 blank_memory) idle_wire =
       (False, AS_BH1750_new 35 blank_memory,
        idle_wire\<lparr>n_end := 1, trace := [BeginTransmission 35, EndTransmission]\<rparr>)"
proof -
  have h: "\<not> isInitialized (AS_BH1750_new 35 blank_memory)"
    by (simp add: isInitialized_def AS_BH1750_new_def)
  from isPresent_uninitialized_false [OF h, where fp = exact_fpu and w = idle_wire
      and w' = idle_wire and dl = PlatformDelay] h
  show ?thesis
    by (simp add: AS_BH1750_new_def idle_wire_def blank_memory_def)
qed

section \<open>The stored hardware mode\<close>

text \<open>
  C9. After the constructor and any sequence of \<^verbatim>\<open>begin\<close>, \<^verbatim>\<open>isPresent\<close>,
  \<^verbatim>\<open>readLightLevel\<close> and \<^verbatim>\<open>powerDown\<close> calls, with any arguments and any answers of
  the bus, \<^verbatim>\<open>_hardwareMode\<close> is 255 or one of the six command codes.
\<close>

theorem hardwareMode_always_legal:
  "legal_hardwareMode (hardwareMode (fst (run fp ops (AS_BH1750_new a mem, w))))"
proof -
  have "handle_ok fp (fst (AS_BH1750_new a mem, w))" by (simp add: new_ok)
  from run_ok [OF this] show ?thesis by (simp add: handle_ok_def)
qed

section \<open>Evaluation on concrete inputs\<close>

lemma begin_gives_auto_handle:
  "begin_sensor exact_fpu 99 False (AS_BH1750_new 35 blank_memory) (wire_with (\<lambda>k. 0) r)
   = (True, auto_handle, wire_with (\<lambda>k. 0) r
       \<lparr>n_end := 3, trace := [WireBegin,
           BeginTransmission 35, WireWrite 66, EndTransmission,
           BeginTransmission 35, WireWrite 66, EndTransmission,
           BeginTransmission 35, WireWrite 19, EndTransmission, Sleep PlatformDelay 5]\<rparr>)"
  by (simp add: begin_sensor_def defineMTReg_def selectResolutionMode_def write8_eq emit_def
      isInitialized_def AS_BH1750_new_def blank_memory_def wire_with_def auto_handle_def
      exact_fpu_def Let_def)

lemma begin_gives_normal_handle:
  "fst (snd (begin_sensor exact_fpu 2 False (AS_BH1750_new 35 blank_memory) (wire_with (\<lambda>k. 0) r)))
   = normal_handle"
  by (simp add: begin_sensor_def defineMTReg_def selectResolutionMode_def write8_eq emit_def
      isInitialized_def AS_BH1750_new_def blank_memory_def wire_with_def normal_handle_def
      exact_fpu_def Let_def)

lemmas eval_defs = readLightLevel_def beforeRead_def autoHigh_def autoProbe_def autoBand_def
  finalRead_def readRawLevel_def defineMTReg_def selectResolutionMode_def powerOn_def
  convertRawValue_def write8_eq emit_def wire_read_def endTransmission_def isInitialized_def
  wire_with_def auto_handle_def normal_handle_def exact_fpu_def Let_def

section \<open>Initialization\<close>

lemma defineMTReg_wire:
  "snd (defineMTReg fp v s w) =
     (if clampMT v = MTreg s then w
      else w\<lparr>n_end := n_end w + 2,
             trace := trace w @
               [BeginTransmission (address s), WireWrite (drop_bit 5 (clampMT v) OR 64), EndTransmission,
                BeginTransmission (address s), WireWrite (drop_bit 5 (clampMT v) OR 64), EndTransmission]\<rparr>)"
  by (auto simp add: defineMTReg_def clampMT_def write8_eq Let_def)

lemma begin_sensor_result:
  "fst (begin_sensor fp mode apd s w) \<longleftrightarrow>
     (mode = 1 \<or> mode = 2 \<or> mode = 3 \<or> mode = 99)
     \<and> acks w (n_end w + (if MTreg s = 69 then 0 else 2)) = 0"
  "hardwareMode (fst (snd (begin_sensor fp mode apd s w))) =
     (if fst (begin_sensor fp mode apd s w) then hardwareMode_of mode apd else 255)"
  by (auto simp add: begin_sensor_def split_def Let_def selectResolutionMode_state
      selectResolutionMode_ok defineMTReg_keeps defineMTReg_wire isInitialized_def emit_def
      clampMT_def hardwareMode_of_def)

lemma selectResolutionMode_wire:
  "isInitialized s \<Longrightarrow> m = 16 \<or> m = 17 \<or> m = 19 \<or> m = 32 \<or> m = 33 \<or> m = 35 \<Longrightarrow>
   trace (snd (snd (selectResolutionMode m d s w))) =
     trace w @ [BeginTransmission (address s), WireWrite m, EndTransmission]
       @ (if acks w (n_end w) = 0 then [Sleep d 5] else [])"
  by (auto simp add: selectResolutionMode_def write8_eq emit_def Let_def)

text \<open>
  C6. \<^verbatim>\<open>begin\<close> with a virtual mode that is none of low, normal, high and auto-high
  returns false and leaves the object uninitialized. With one of the four modes, when
  the bus write that selects the hardware mode is not acknowledged, \<^verbatim>\<open>begin\<close> returns
  false and \<^verbatim>\<open>_hardwareMode\<close> is 255 again; that write is the last thing on the bus. The
  write is the first transmission after the two of \<^verbatim>\<open>defineMTReg\<close>, which happen when
  the register was not 69. When it is acknowledged, \<^verbatim>\<open>begin\<close> returns true with the
  hardware mode of the table.
\<close>

theorem begin_sensor_failure:
  "(mode \<noteq> 1 \<and> mode \<noteq> 2 \<and> mode \<noteq> 3 \<and> mode \<noteq> 99 \<longrightarrow>
      \<not> fst (begin_sensor fp mode apd s w)
      \<and> \<not> isInitialized (fst (snd (begin_sensor fp mode apd s w))))
   \<and> ((mode = 1 \<or> mode = 2 \<or> mode = 3 \<or> mode = 99)
       \<and> acks w (n_end w + (if MTreg s = 69 then 0 else 2)) \<noteq> 0 \<longrightarrow>
      \<not> fst (begin_sensor fp mode apd s w)
      \<and> hardwareMode (fst (snd (begin_sensor fp mode apd s w))) = 255
      \<and> \<not> isInitialized (fst (snd (begin_sensor fp mode apd s w)))
      \<and> (\<exists>X. trace (snd (snd (begin_sensor fp mode apd s w))) =
            X @ [BeginTransmission (address s), WireWrite (hardwareMode_of mode apd), EndTransmission]))
   \<and> ((mode = 1 \<or> mode = 2 \<or> mode = 3 \<or> mode = 99)
       \<and> acks w (n_end w + (if MTreg s = 69 then 0 else 2)) = 0 \<longrightarrow>
      fst (begin_sensor fp mode apd s w)
      \<and> hardwareMode (fst (snd (begin_sensor fp mode apd s w))) = hardwareMode_of mode apd)"
proof -
  have t: "\<exists>X. trace (snd (snd (begin_sensor fp mode apd s w))) =
            X @ [BeginTransmission (address s), WireWrite (hardwareMode_of mode apd), EndTransmission]"
    if "mode = 1 \<or> mode = 2 \<or> mode = 3 \<or> mode = 99"
      and "acks w (n_end w + (if MTreg s = 69 then 0 else 2)) \<noteq> 0"
    using that
    by (auto simp add: begin_sensor_def split_def Let_def selectResolutionMode_def write8_eq
        defineMTReg_keeps defineMTReg_wire isInitialized_def emit_def clampMT_def
        hardwareMode_of_def)
  show ?thesis using t by (simp add: begin_sensor_result isInitialized_def)
qed

theorem begin_sensor_failure_witness:
  "\<not> fst (begin_sensor exact_fpu 7 True (AS_BH1750_new 35 blank_memory) idle_wire)
   \<and> \<not> isInitialized (fst (snd (begin_sensor exact_fpu 7 True (AS_BH1750_new 35 blank_memory) idle_wire)))
   \<and> \<not> fst (begin_sensor exact_fpu 2 False (AS_BH1750_new 35 blank_memory) dead_wire)
   \<and> hardwareMode (fst (snd (begin_sensor exact_fpu 2 False (AS_BH1750_new 35 blank_memory) dead_wire))) = 255
   \<and> fst (begin_sensor exact_fpu 2 False (AS_BH1750_new 35 blank_memory) idle_wire)
   \<and> hardwareMode (fst (snd (begin_sensor exact_fpu 2 False (AS_BH1750_new 35 blank_memory) idle_wire))) = 16"
  using begin_sensor_failure [where mode = 7 and fp = exact_fpu and apd = True
      and s = "AS_BH1750_new 35 blank_memory" and w = idle_wire]
    begin_sensor_failure [where mode = 2 and fp = exact_fpu and apd = False
      and s = "AS_BH1750_new 35 blank_memory" and w = dead_wire]
    begin_sensor_failure [where mode = 2 and fp = exact_fpu and apd = False
      and s = "AS_BH1750_new 35 blank_memory" and w = idle_wire]
  by (simp add: idle_wire_def dead_wire_def AS_BH1750_new_def blank_memory_def hardwareMode_of_def)

section \<open>Conversion to lux\<close>

lemma keeps_sign_exact: "keeps_sign exact_fpu"
  by (simp add: keeps_sign_def exact_fpu_def)

lemma convertRawValue_nonneg:
  assumes "keeps_sign fp" and "MTregFactor_valid fp s"
  shows "0 \<le> convertRawValue fp raw s"
proof -
  have f: "0 \<le> to_float fp x" and d: "0 \<le> to_double fp x" if "0 \<le> x" for x
    using assms(1) that by (simp_all add: keeps_sign_def)
  have c: "0 < to_double fp 1.2" using assms(1) by (simp add: keeps_sign_def)
  have n: "0 \<le> (unsigned x :: real)" for x :: "'a::len word"
    using of_nat_0_le_iff [of "unat x", where 'a = real] by simp
  have l1: "0 \<le> to_float fp (to_double fp (real (unat raw) / to_double fp 1.2))"
    using c n by (intro f d divide_nonneg_nonneg) simp_all
  have fac: "MTreg s \<noteq> 69 \<Longrightarrow> 0 \<le> MTregFactor s"
    using assms(2) by (auto simp add: MTregFactor_valid_def n intro!: f)
  show ?thesis
    using l1 fac by (auto simp add: convertRawValue_def Let_def intro!: f)
qed

text \<open>
  C3. \<^verbatim>\<open>convertRawValue\<close> reads the object and touches nothing: it is a function of the
  raw value and the object. With the register at 69 and a hardware mode that is not a
  0.5 lx mode, the result is \<^verbatim>\<open>raw/1.2\<close> as the source computes it (exactly raw / 1.2
  when nothing is rounded). With the register at 69 the result in a 0.5 lx mode is the
  result in the 1 lx mode of the same kind, divided by 2. The result is the same for two
  objects with the same register and hardware mode whose factors are valid, which holds
  of every initialized object that the public operations produce from the constructor.
\<close>

theorem convertRawValue_pure:
  "(MTreg s = 69 \<and> hardwareMode s \<noteq> 17 \<and> hardwareMode s \<noteq> 33 \<longrightarrow>
      convertRawValue fp raw s = to_float fp (to_double fp (real (unat raw) / to_double fp 1.2))
      \<and> convertRawValue exact_fpu raw s = real (unat raw) / 1.2)
   \<and> (MTreg s = 69 \<and> MTreg s' = 69
       \<and> (hardwareMode s = 17 \<and> hardwareMode s' = 16 \<or> hardwareMode s = 33 \<and> hardwareMode s' = 32) \<longrightarrow>
      convertRawValue fp raw s = to_float fp (convertRawValue fp raw s' / 2)
      \<and> convertRawValue exact_fpu raw s = convertRawValue exact_fpu raw s' / 2)
   \<and> (MTreg s = MTreg s' \<and> hardwareMode s = hardwareMode s'
       \<and> MTregFactor_valid fp s \<and> MTregFactor_valid fp s' \<longrightarrow>
      convertRawValue fp raw s = convertRawValue fp raw s')
   \<and> (let r = fst (run fp ops (AS_BH1750_new a mem, w));
           r' = fst (run fp ops' (AS_BH1750_new a' mem', w'))
       in isInitialized r \<and> isInitialized r' \<and> MTreg r = MTreg r' \<and> hardwareMode r = hardwareMode r'
          \<longrightarrow> convertRawValue fp raw r = convertRawValue fp raw r')"
proof -
  have 1: "MTreg s = 69 \<and> hardwareMode s \<noteq> 17 \<and> hardwareMode s \<noteq> 33 \<longrightarrow>
      convertRawValue fp raw s = to_float fp (to_double fp (real (unat raw) / to_double fp 1.2))
      \<and> convertRawValue exact_fpu raw s = real (unat raw) / 1.2"
    by (simp add: convertRawValue_def Let_def exact_fpu_def)
  have 2: "MTreg s = 69 \<and> MTreg s' = 69
       \<and> (hardwareMode s = 17 \<and> hardwareMode s' = 16 \<or> hardwareMode s = 33 \<and> hardwareMode s' = 32) \<longrightarrow>
      convertRawValue fp raw s = to_float fp (convertRawValue fp raw s' / 2)
      \<and> convertRawValue exact_fpu raw s = convertRawValue exact_fpu raw s' / 2"
    by (auto simp add: convertRawValue_def Let_def exact_fpu_def)
  have 3: "MTreg x = MTreg y \<and> hardwareMode x = hardwareMode y
       \<and> MTregFactor_valid fp x \<and> MTregFactor_valid fp y \<longrightarrow>
      convertRawValue fp raw x = convertRawValue fp raw y" for x y
    by (auto simp add: convertRawValue_def Let_def MTregFactor_valid_def)
  have 4: "isInitialized (fst (run fp ops (AS_BH1750_new a mem, w)))
       \<and> isInitialized (fst (run fp ops' (AS_BH1750_new a' mem', w')))
       \<and> MTreg (fst (run fp ops (AS_BH1750_new a mem, w)))
           = MTreg (fst (run fp ops' (AS_BH1750_new a' mem', w')))
       \<and> hardwareMode (fst (run fp ops (AS_BH1750_new a mem, w)))
           = hardwareMode (fst (run fp ops' (AS_BH1750_new a' mem', w')))
       \<longrightarrow> convertRawValue fp raw (fst (run fp ops (AS_BH1750_new a mem, w)))
           = convertRawValue fp raw (fst (run fp ops' (AS_BH1750_new a' mem', w')))"
    using 3 run_MTregFactor_valid by blast
  show ?thesis using 1 2 3 [of s s'] 4 by (simp add: Let_def)
qed

theorem convertRawValue_pure_witness:
  "convertRawValue exact_fpu 120 normal_handle = 100
   \<and> convertRawValue exact_fpu 120 (normal_handle\<lparr>hardwareMode := 17\<rparr>) = 50
   \<and> convertRawValue exact_fpu 120
        (fst (run exact_fpu [Begin 2 False] (AS_BH1750_new 35 blank_memory, idle_wire))) = 100
   \<and> convertRawValue exact_fpu 120
        (fst (run exact_fpu [Begin 2 False]
           (AS_BH1750_new 35 (blank_memory\<lparr>MTreg := 69, MTregFactor := 7\<rparr>), idle_wire))) = 100"
  using convertRawValue_pure [where s = "normal_handle\<lparr>hardwareMode := 17\<rparr>" and s' = normal_handle
      and fp = exact_fpu and raw = 120
      and ops = "[Begin 2 False]" and a = 35 and mem = blank_memory and w = idle_wire
      and ops' = "[Begin 2 False]" and a' = 35
      and mem' = "blank_memory\<lparr>MTreg := 69, MTregFactor := 7\<rparr>" and w' = idle_wire]
    convertRawValue_pure [where s = normal_handle and s' = normal_handle and fp = exact_fpu and raw = 120
      and ops = "[]" and a = 35 and mem = blank_memory and w = idle_wire
      and ops' = "[]" and a' = 35 and mem' = blank_memory and w' = idle_wire]
  by (simp add: begin_sensor_def eval_defs idle_wire_def blank_memory_def AS_BH1750_new_def
      MTregFactor_valid_def)

section \<open>The suspicious raw value\<close>

text \<open>
  C5. In \<^verbatim>\<open>readLightLevel\<close> on an initialized object, when the final
  \<^verbatim>\<open>readRawLevel\<close> returns 65535, an empty transmission to the address follows. The
  result is -1 exactly when that transmission fails; when it succeeds, the result is the
  conversion of 65535. The factor is assumed valid and rounding to keep the sign, so
  that a conversion never yields -1.
\<close>

theorem readLightLevel_suspicious_value:
  assumes "isInitialized s" and "MTregFactor_valid fp s" and "keeps_sign fp"
  shows "(let (s2, w2) = beforeRead fp dl s w;
              (raw, s3, w3) = readRawLevel s2 w2;
              (lux, s4, w4) = readLightLevel fp dl s w
          in raw = 65535 \<longrightarrow>
               trace w4 = trace w3 @ [BeginTransmission (address s), EndTransmission]
               \<and> (lux = - 1 \<longleftrightarrow> acks w3 (n_end w3) \<noteq> 0)
               \<and> (acks w3 (n_end w3) = 0 \<longrightarrow> lux = convertRawValue fp 65535 s3)
               \<and> s4 = s3)"
proof -
  obtain s2 w2 where b: "beforeRead fp dl s w = (s2, w2)" by (cases "beforeRead fp dl s w")
  obtain raw s3 w3 where r: "readRawLevel s2 w2 = (raw, s3, w3)"
    by (cases "readRawLevel s2 w2") auto
  have v2: "MTregFactor_valid fp s2" and a2: "address s2 = address s"
    using beforeRead_props(3,4) [OF assms(1,2), where dl = dl and w = w] by (simp_all add: b)
  have s3: "s3 = (if acks w2 (n_end w2) \<noteq> 0 then s2 else s2\<lparr>valueReaded := True\<rparr>)"
    using readRawLevel_state [of s2 w2] by (simp add: r)
  have v3: "MTregFactor_valid fp s3" and a3: "address s3 = address s"
    using v2 a2 by (simp_all add: s3)
  have n: "convertRawValue fp 65535 s3 \<noteq> - 1"
    using convertRawValue_nonneg [OF assms(3) v3, of 65535] by simp
  show ?thesis
    using assms(1) n a3
    by (simp add: b r readLightLevel_def finalRead_def Let_def emit_def endTransmission_def)
qed

theorem readLightLevel_suspicious_value_witness:
  "isInitialized normal_handle \<and> MTregFactor_valid exact_fpu normal_handle \<and> keeps_sign exact_fpu
   \<and> fst (readLightLevel exact_fpu CallerDelay normal_handle dead_wire) = - 1
   \<and> fst (readLightLevel exact_fpu CallerDelay normal_handle
            (wire_with (\<lambda>k. if k = 0 then 0 else 2) (\<lambda>k. 255))) = - 1
   \<and> fst (readLightLevel exact_fpu CallerDelay normal_handle (wire_with (\<lambda>k. 0) (\<lambda>k. 255))) = 54612.5"
proof -
  have i: "isInitialized normal_handle" by (simp add: isInitialized_def normal_handle_def)
  have v: "MTregFactor_valid exact_fpu normal_handle"
    by (simp add: MTregFactor_valid_def normal_handle_def)
  have k: "keeps_sign exact_fpu" by (simp add: keeps_sign_def exact_fpu_def)
  show ?thesis
    using i v k readLightLevel_suspicious_value [OF i v k, where dl = CallerDelay and w = dead_wire]
      readLightLevel_suspicious_value [OF i v k, where dl = CallerDelay and w = "wire_with (\<lambda>k. if k = 0 then 0 else 2) (\<lambda>k. 255)"]
      readLightLevel_suspicious_value [OF i v k, where dl = CallerDelay and w = "wire_with (\<lambda>k. 0) (\<lambda>k. 255)"]
    by (simp add: eval_defs dead_wire_def)
qed

section \<open>The automatic mode\<close>

lemma band_partition:
  "length (filter (\<lambda>b. b) [p < 10, 10 \<le> p \<and> p < 32767, 32767 \<le> p \<and> p < 60000, 60000 \<le> p]) = 1"
  for p :: "16 word"
  by (auto simp add: word_less_nat_alt word_le_nat_alt)

text \<open>
  The bytes that a branch writes when the register is 69 before it, as it is after the
  probe: the command of the hardware mode, preceded in the dark and the very bright
  branch by the high byte of the new register value, twice.
\<close>

lemma autoBand_written:
  assumes "isInitialized s" and "MTreg s = 69"
  shows "\<exists>X. trace (snd (autoBand fp dl p s w)) = trace w @ X
           \<and> written X =
               (if p < 10 then [71, 71, hardwareMode (fst (autoBand fp dl p s w))]
                else if p < 32767 \<or> p < 60000 then [hardwareMode (fst (autoBand fp dl p s w))]
                else [65, 65, hardwareMode (fst (autoBand fp dl p s w))])"
  using assms
  by (simp add: autoBand_def split_def Let_def selectResolutionMode_def write8_eq
      defineMTReg_wire defineMTReg_state defineMTReg_keeps emit_def clampMT_def
      isInitialized_def)

text \<open>
  The branches of the automatic mode, for every initialized object in that mode, every
  bus and every probe value \<open>p\<close>. Exactly one of \<open>p < 10\<close>, \<open>10 \<le> p < 32767\<close>,
  \<open>32767 \<le> p < 60000\<close> and \<open>60000 \<le> p\<close> holds. The member \<^verbatim>\<open>_MTreg\<close> is 69 after the
  probe, and the branch leaves it at 254, 69, 69 and 32, and the hardware mode at a
  0.5 lx mode in the first two cases and a 1 lx mode in the last two (one-time with
  \<^verbatim>\<open>_autoPowerDown\<close>, continuous without). On the bus the branch writes the command of
  that mode, after the high byte of 254 (71) or of 32 (65) twice where the register
  changes; no low byte is written. The final read changes neither member.
\<close>

lemma auto_high_bands:
  assumes "isInitialized s" and "virtualMode s = 99"
  shows "(let (s1, w1) = (if autoPowerDown s \<and> valueReaded s then powerOn s w else (s, w));
              (p, s2, w2) = autoProbe fp dl s1 w1;
              (s3, w3) = autoBand fp dl p s2 w2;
              (lux, s4, w4) = readLightLevel fp dl s w;
              mode1 = (if autoPowerDown s then 32 else 16);
              mode2 = (if autoPowerDown s then 33 else 17)
          in length (filter (\<lambda>b. b)
                [p < 10, 10 \<le> p \<and> p < 32767, 32767 \<le> p \<and> p < 60000, 60000 \<le> p]) = 1
           \<and> MTreg s2 = 69
           \<and> (p < 10 \<longrightarrow> MTreg s3 = 254 \<and> hardwareMode s3 = mode2)
           \<and> (10 \<le> p \<and> p < 32767 \<longrightarrow> MTreg s3 = 69 \<and> hardwareMode s3 = mode2)
           \<and> (32767 \<le> p \<and> p < 60000 \<longrightarrow> MTreg s3 = 69 \<and> hardwareMode s3 = mode1)
           \<and> (60000 \<le> p \<longrightarrow> MTreg s3 = 32 \<and> hardwareMode s3 = mode1)
           \<and> (\<exists>X. trace w3 = trace w2 @ X
                \<and> written X = (if p < 10 then [71, 71, hardwareMode s3]
                                 else if p < 60000 then [hardwareMode s3]
                                 else [65, 65, hardwareMode s3]))
           \<and> MTreg s4 = MTreg s3 \<and> hardwareMode s4 = hardwareMode s3)"
proof -
  define c1 where "c1 = (if autoPowerDown s \<and> valueReaded s then powerOn s w else (s, w))"
  obtain s1 w1 where c: "c1 = (s1, w1)" by (cases c1)
  have s1: "s1 = fst c1" using c by simp
  obtain p s2 w2 where a: "autoProbe fp dl s1 w1 = (p, s2, w2)" by (cases "autoProbe fp dl s1 w1") auto
  obtain s3 w3 where d: "autoBand fp dl p s2 w2 = (s3, w3)" by (cases "autoBand fp dl p s2 w2")
  have i1: "isInitialized s1" and m1: "virtualMode s1 = 99" and p1: "autoPowerDown s1 = autoPowerDown s"
    using assms by (simp_all add: s1 c1_def powerOn_props)
  note pr = autoProbe_props [OF i1, where fp = fp and dl = dl and w = w1, unfolded a, simplified]
  note bd = autoBand_props(1,2) [OF pr(5), where fp = fp and dl = dl and level = p and w = w2,
      unfolded d, simplified]
  have lt: "p < 10 \<Longrightarrow> p < 32767" "p < 32767 \<Longrightarrow> p < 60000"
    by (simp_all add: word_less_nat_alt)
  have l6: "(p < 32767 \<or> p < 60000) = (p < 60000)" using lt(2) by blast
  have wr: "\<exists>X. trace w3 = trace w2 @ X
                \<and> written X = (if p < 10 then [71, 71, hardwareMode s3]
                                 else if p < 60000 then [hardwareMode s3]
                                 else [65, 65, hardwareMode s3])"
    by (rule autoBand_written [OF pr(5) pr(2), where fp = fp and dl = dl and p = p and w = w2,
          unfolded d fst_conv snd_conv l6])
  have rl: "readLightLevel fp dl s w = finalRead fp s3 w3"
    using assms(1) m1 c [unfolded c1_def]
    by (simp add: readLightLevel_def beforeRead_def autoHigh_def a d Let_def)
  have ap: "autoPowerDown s2 = autoPowerDown s" using pr(4) p1 by simp
  have b1: "p < 10 \<longrightarrow> MTreg s3 = 254 \<and> hardwareMode s3 = (if autoPowerDown s then 33 else 17)"
    using bd ap by simp
  have b2: "10 \<le> p \<and> p < 32767 \<longrightarrow>
      MTreg s3 = 69 \<and> hardwareMode s3 = (if autoPowerDown s then 33 else 17)"
    using bd ap by (auto dest: leD)
  have b3: "32767 \<le> p \<and> p < 60000 \<longrightarrow>
      MTreg s3 = 69 \<and> hardwareMode s3 = (if autoPowerDown s then 32 else 16)"
    using bd ap lt by (auto dest: leD)
  have b4: "60000 \<le> p \<longrightarrow> MTreg s3 = 32 \<and> hardwareMode s3 = (if autoPowerDown s then 32 else 16)"
    using bd ap lt by (auto dest: leD)
  obtain lux s4 w4 where f: "finalRead fp s3 w3 = (lux, s4, w4)"
    by (cases "finalRead fp s3 w3") auto
  have fr: "MTreg s4 = MTreg s3" "hardwareMode s4 = hardwareMode s3"
    using finalRead_props(1,2) [of fp s3 w3] by (simp_all add: f)
  have "length (filter (\<lambda>b. b)
                [p < 10, 10 \<le> p \<and> p < 32767, 32767 \<le> p \<and> p < 60000, 60000 \<le> p]) = 1
           \<and> MTreg s2 = 69
           \<and> (p < 10 \<longrightarrow> MTreg s3 = 254 \<and> hardwareMode s3 = (if autoPowerDown s then 33 else 17))
           \<and> (10 \<le> p \<and> p < 32767 \<longrightarrow>
                MTreg s3 = 69 \<and> hardwareMode s3 = (if autoPowerDown s then 33 else 17))
           \<and> (32767 \<le> p \<and> p < 60000 \<longrightarrow>
                MTreg s3 = 69 \<and> hardwareMode s3 = (if autoPowerDown s then 32 else 16))
           \<and> (60000 \<le> p \<longrightarrow> MTreg s3 = 32 \<and> hardwareMode s3 = (if autoPowerDown s then 32 else 16))
           \<and> (\<exists>X. trace w3 = trace w2 @ X
                \<and> written X = (if p < 10 then [71, 71, hardwareMode s3]
                                 else if p < 60000 then [hardwareMode s3]
                                 else [65, 65, hardwareMode s3]))
           \<and> MTreg s4 = MTreg s3 \<and> hardwareMode s4 = hardwareMode s3"
    using band_partition [of p] pr(2) b1 b2 b3 b4 wr fr by blast
  then show ?thesis
    unfolding c1_def [symmetric] c Let_def prod.case a d rl f .
qed

lemma auto_high_bands_witness:
  "(let s = fst (snd (readLightLevel exact_fpu CallerDelay auto_handle (wire_with (\<lambda>k. 0) (\<lambda>k. 0))))
    in MTreg s = 254 \<and> hardwareMode s = 17)
   \<and> (let s = fst (snd (readLightLevel exact_fpu CallerDelay auto_handle
                   (wire_with (\<lambda>k. 0) (\<lambda>k. if k = 0 then 1 else 0))))
      in MTreg s = 69 \<and> hardwareMode s = 17)
   \<and> (let s = fst (snd (readLightLevel exact_fpu CallerDelay auto_handle
                   (wire_with (\<lambda>k. 0) (\<lambda>k. if k = 0 then 128 else 0))))
      in MTreg s = 69 \<and> hardwareMode s = 16)
   \<and> (let s = fst (snd (readLightLevel exact_fpu CallerDelay auto_handle (wire_with (\<lambda>k. 0) (\<lambda>k. 255))))
      in MTreg s = 32 \<and> hardwareMode s = 16)"
proof -
  have i: "isInitialized auto_handle" and v: "virtualMode auto_handle = 99"
    by (simp_all add: isInitialized_def auto_handle_def)
  show ?thesis
    using auto_high_bands [OF i v, where fp = exact_fpu and dl = CallerDelay and w = "wire_with (\<lambda>k. 0) (\<lambda>k. 0)"]
      auto_high_bands [OF i v, where fp = exact_fpu and dl = CallerDelay and w = "wire_with (\<lambda>k. 0) (\<lambda>k. if k = 0 then 1 else 0)"]
      auto_high_bands [OF i v, where fp = exact_fpu and dl = CallerDelay and w = "wire_with (\<lambda>k. 0) (\<lambda>k. if k = 0 then 128 else 0)"]
      auto_high_bands [OF i v, where fp = exact_fpu and dl = CallerDelay and w = "wire_with (\<lambda>k. 0) (\<lambda>k. 255)"]
    by (simp add: eval_defs)
qed

text \<open>
  C2. Claimed: in the automatic mode the probe value falls into exactly one of four
  bands, and the band sets the sensitivity register (254 when dark, 32 when very bright,
  69 kept otherwise) and selects a 0.5 lx or a 1 lx mode. The bands and the selection of
  the mode are as claimed (\<open>auto_high_bands\<close>). The register of the sensor is not set:
  \<^verbatim>\<open>defineMTReg\<close> stores 254 or 32 in the object and sends the high byte twice and the
  low byte never. On the object that \<^verbatim>\<open>begin(RESOLUTION_AUTO_HIGH, false)\<close> leaves, with
  a probe of 0 the bytes written during \<^verbatim>\<open>readLightLevel\<close> are 19, 71, 71, 17, without
  the low byte 126 of 254; with a probe of 65535 they are 19, 65, 65, 16, without the
  low byte 96 of 32.
\<close>

theorem auto_high_register_low_byte_never_sent:
  "(let (lux, s, w) = readLightLevel exact_fpu CallerDelay auto_handle
                        (wire_with (\<lambda>k. 0) (\<lambda>k. 0))
    in MTreg s = 254 \<and> written (trace w) = [19, 71, 71, 17]
       \<and> ((254 :: 8 word) AND 31) OR 96 = 126 \<and> 126 \<notin> set (written (trace w)))
   \<and> (let (lux, s, w) = readLightLevel exact_fpu CallerDelay auto_handle
                          (wire_with (\<lambda>k. 0) (\<lambda>k. 255))
       in MTreg s = 32 \<and> written (trace w) = [19, 65, 65, 16]
          \<and> ((32 :: 8 word) AND 31) OR 96 = 96 \<and> 96 \<notin> set (written (trace w)))"
  by (simp add: eval_defs)

end
